theory Spec2Isabelle
  imports Complex_Main "HOL-Library.Product_Lexorder" "HOL-Library.Multiset" "HOL-Library.Sublist"
begin

section \<open>Values\<close>

text \<open>
  Amounts are Python floats in the program. They are modelled as exact real numbers:
  rounding, infinities and the order of floating-point additions are not represented.
  The float NaN is the null marker of a numeric column and is modelled as an absent value.
\<close>

type_synonym amount = real

text \<open>
  A timestamp: the year, the month and the position inside the month (day and time of day,
  \<open>ts_rest\<close>) that its clock shows. \<open>Timestamp\<close> has no time zone, as
  \<open>datetime.now()\<close> returns it; \<open>TimestampTz\<close> carries the offset of its time zone
  from UTC in minutes, as a date read from a file can. \<open>None\<close> stands for NaT.
\<close>

datatype timestamp =
    Timestamp (ts_year: nat) (ts_month: nat) (ts_rest: nat)
  | TimestampTz (ts_year: nat) (ts_month: nat) (ts_rest: nat) (ts_offset: int)

definition zone_of :: "timestamp \<Rightarrow> int option" where
  "zone_of t = (case t of Timestamp y m r \<Rightarrow> None | TimestampTz y m r z \<Rightarrow> Some z)"

definition ts_key :: "timestamp \<Rightarrow> nat \<times> nat \<times> nat" where
  "ts_key t = (ts_year t, ts_month t, ts_rest t)"

text \<open>
  \<open>strftime("%B %Y")\<close>: the month name and the year. The label is kept as the pair
  (month, year); two labels are equal exactly when the printed strings are.
\<close>

type_synonym month_label = "nat \<times> nat"

definition strftime_BY :: "timestamp \<Rightarrow> month_label" where
  "strftime_BY t = (ts_month t, ts_year t)"

text \<open>One cell of a pandas column: the null marker (NaN, None, NaT), a string, a number, a timestamp.\<close>

datatype cell = NA | Str string | Num amount | Time timestamp

datatype error =
    ValueError
  | TypeError
  | KeyError
  | IndexError
  | InvalidIndexError
  | AttributeError
  | StreamlitAPIException
  | ReError
  | ParserError string

text \<open>
  The installed pandas. Where the two major versions differ on what the program does, the
  model follows pandas 2.3 and pandas 3.1.
\<close>

datatype pandas = Pandas2 | Pandas3

definition REQUIRED_COLS :: "string list" where
  "REQUIRED_COLS = [''Date'', ''Type'', ''Category'', ''Description'', ''Amount'']"

definition CATEGORY_OPTIONS :: "string list" where
  "CATEGORY_OPTIONS = [''Food'', ''Transport'', ''Bills'', ''Entertainment'', ''Other'']"

section \<open>Tables\<close>

text \<open>
  A DataFrame is a row count and a list of labelled columns. pandas allows a label to occur
  more than once. \<open>wf_frame\<close> is the shape invariant: every column has one cell per row.
\<close>

datatype dtype = DatetimeT | NumericT | ObjectT

datatype column = Column (cname: string) (cdtype: dtype) (cells: "cell list")

datatype dataframe = DataFrame (nrows: nat) (columns: "column list")

definition col_names :: "dataframe \<Rightarrow> string list" where
  "col_names df = map cname (columns df)"

definition wf_frame :: "dataframe \<Rightarrow> bool" where
  "wf_frame df = list_all (\<lambda>c. length (cells c) = nrows df) (columns df)"

text \<open>What \<open>ensure_schema\<close> can be called with: \<open>None\<close>, some other object, or a DataFrame.\<close>

datatype pyobj = PyNone | PyOther string | PyDataFrame dataframe

subsection \<open>The pandas operations that ensure\_schema uses\<close>

text \<open>\<open>pd.DataFrame(columns=REQUIRED_COLS)\<close>: no rows, five object columns.\<close>

definition empty_frame :: dataframe where
  "empty_frame = DataFrame 0 (map (\<lambda>n. Column n ObjectT []) REQUIRED_COLS)"

text \<open>\<open>pd.Series(dtype=...)\<close> assigned to a new label: a column of null markers, aligned to the rows.\<close>

definition null_column :: "string \<Rightarrow> dtype \<Rightarrow> nat \<Rightarrow> column" where
  "null_column n d k = Column n d (replicate k NA)"

text \<open>Lines 23 to 29: one round of the loop over \<open>REQUIRED_COLS\<close>.\<close>

definition add_missing :: "string \<Rightarrow> dataframe \<Rightarrow> dataframe" where
  "add_missing col df =
     (if col \<notin> set (col_names df) then
        (if col = ''Date'' then
           DataFrame (nrows df) (columns df @ [null_column col DatetimeT (nrows df)])
         else if col = ''Amount'' then
           DataFrame (nrows df) (columns df @ [null_column col NumericT (nrows df)])
         else
           DataFrame (nrows df) (columns df @ [null_column col ObjectT (nrows df)]))
      else df)"

text \<open>\<open>df[label]\<close>: every column carrying the label (one Series, or a DataFrame when the label repeats).\<close>

definition getitem :: "string \<Rightarrow> dataframe \<Rightarrow> column list" where
  "getitem n df = filter (\<lambda>c. cname c = n) (columns df)"

text \<open>\<open>df[labels]\<close>: for each label in turn, every column carrying it; a label that is absent raises KeyError.\<close>

definition select_cols :: "string list \<Rightarrow> dataframe \<Rightarrow> error + dataframe" where
  "select_cols ns df =
     (if list_all (\<lambda>n. n \<in> set (col_names df)) ns
      then Inr (DataFrame (nrows df) (concat (map (\<lambda>n. getitem n df) ns)))
      else Inl KeyError)"

text \<open>\<open>df[label] = series\<close> for a label that is present: the column is replaced where it stands.\<close>

definition setitem :: "string \<Rightarrow> column \<Rightarrow> dataframe \<Rightarrow> dataframe" where
  "setitem n s df =
     DataFrame (nrows df) (map (\<lambda>c. if cname c = n then Column n (cdtype s) (cells s) else c) (columns df))"

text \<open>
  \<open>pd.to_datetime(..., errors="coerce")\<close> on the timestamps that a column already holds.
  pandas walks down the column and remembers whether it has met a timestamp with a time zone
  (\<open>found_tz\<close>), one without (\<open>found_naive\<close>), and the zone it has settled on
  (\<open>tz\<close>). A timestamp that does not go with what was met before raises inside the loop
  and, under \<open>coerce\<close>, becomes NaT: a timestamp without a zone after one with a zone, a
  timestamp with a zone after one without, a timestamp of another zone than the one settled on.
  In a column of two zones this turns every timestamp whose zone is not the first one's into NaT.
\<close>

fun coerce_objects :: "bool \<Rightarrow> bool \<Rightarrow> int option \<Rightarrow> cell list \<Rightarrow> cell list" where
  "coerce_objects found_tz found_naive tz [] = []"
| "coerce_objects found_tz found_naive tz (Time t # cs) =
     (case zone_of t of
        Some z \<Rightarrow>
          (if found_naive \<or> (tz \<noteq> None \<and> tz \<noteq> Some z)
           then NA # coerce_objects True found_naive tz cs
           else Time t # coerce_objects True found_naive (Some z) cs)
      | None \<Rightarrow>
          (if found_tz then NA # coerce_objects found_tz True tz cs
           else Time t # coerce_objects found_tz True tz cs))"
| "coerce_objects found_tz found_naive tz (c # cs) = c # coerce_objects found_tz found_naive tz cs"

text \<open>
  The other cells go to the parser of the library, the parameter \<open>P\<close>: it is given the
  cells of the whole column (pandas settles on one format per column) and the cell to
  convert. Anything the parser gives up on becomes the null marker.
\<close>

definition coerce_date :: "(cell \<Rightarrow> timestamp option) \<Rightarrow> cell \<Rightarrow> cell" where
  "coerce_date p c =
     (case c of
        Time t \<Rightarrow> Time t
      | NA \<Rightarrow> NA
      | _ \<Rightarrow> (case p c of Some t \<Rightarrow> Time t | None \<Rightarrow> NA))"

text \<open>The time zones among the timestamps of a column, each once; \<open>None\<close> is the absence of a zone.\<close>

definition zones :: "cell list \<Rightarrow> int option list" where
  "zones cs = remdups (concat (map (\<lambda>c. case c of Time t \<Rightarrow> [zone_of t] | _ \<Rightarrow> []) cs))"

text \<open>
  \<open>pd.to_datetime(..., errors="coerce")\<close>, line 31. When the converted values are of more
  than one time zone (dates written with different UTC offsets), pandas 3 raises ValueError
  (mixed time zones), and pandas 2 returns a column of dtype object that keeps every
  timestamp with its own offset; otherwise the column is a datetime column. Handed a DataFrame
  (a repeated label), pandas raises ValueError.
\<close>

definition to_datetime ::
  "pandas \<Rightarrow> (cell list \<Rightarrow> cell \<Rightarrow> timestamp option) \<Rightarrow> column list \<Rightarrow> error + column" where
  "to_datetime ver P arg =
     (case arg of
        [s] \<Rightarrow>
          (let cs = map (coerce_date (P (cells s))) (coerce_objects False False None (cells s))
           in if length (zones cs) \<le> 1 then Inr (Column (cname s) DatetimeT cs)
              else (case ver of
                      Pandas3 \<Rightarrow> Inl ValueError
                    | Pandas2 \<Rightarrow> Inr (Column (cname s) ObjectT cs)))
      | _ \<Rightarrow> Inl ValueError)"

text \<open>
  \<open>pd.to_numeric(..., errors="coerce")\<close>, with the conversion of the library as the
  parameter \<open>N\<close>. Numbers and null markers are kept. Handed a DataFrame, pandas raises TypeError.
\<close>

definition coerce_num :: "(cell \<Rightarrow> amount option) \<Rightarrow> cell \<Rightarrow> cell" where
  "coerce_num N c =
     (case c of
        Num x \<Rightarrow> Num x
      | NA \<Rightarrow> NA
      | _ \<Rightarrow> (case N c of Some x \<Rightarrow> Num x | None \<Rightarrow> NA))"

definition to_numeric :: "(cell \<Rightarrow> amount option) \<Rightarrow> column list \<Rightarrow> error + column" where
  "to_numeric N arg =
     (case arg of
        [s] \<Rightarrow> Inr (Column (cname s) NumericT (map (coerce_num N) (cells s)))
      | _ \<Rightarrow> Inl TypeError)"

subsection \<open>ensure\_schema\<close>

text \<open>
  Lines 19 to 33. The assignments of lines 25 to 29 also add the columns to the caller's
  frame; what is modelled is the table that is returned.
\<close>

definition ensure_schema ::
  "pandas \<Rightarrow> (cell list \<Rightarrow> cell \<Rightarrow> timestamp option) \<Rightarrow> (cell \<Rightarrow> amount option) \<Rightarrow>
   pyobj \<Rightarrow> error + dataframe" where
  "ensure_schema ver P N obj =
     (let df0 = (case obj of PyDataFrame d \<Rightarrow> d | _ \<Rightarrow> empty_frame);
          df1 = fold add_missing REQUIRED_COLS df0
      in case select_cols REQUIRED_COLS df1 of
           Inl e \<Rightarrow> Inl e
         | Inr df2 \<Rightarrow>
             (case to_datetime ver P (getitem ''Date'' df2) of
                Inl e \<Rightarrow> Inl e
              | Inr d \<Rightarrow>
                  (let df3 = setitem ''Date'' d df2
                   in case to_numeric N (getitem ''Amount'' df3) of
                        Inl e \<Rightarrow> Inl e
                      | Inr a \<Rightarrow> Inr (setitem ''Amount'' a df3))))"

section \<open>The transaction store\<close>

text \<open>
  The session's table always carries the five required columns, so a row is kept as a record.
  \<open>Date\<close> is a timestamp or NaT, \<open>Amount\<close> a number or NaN; the three object columns
  hold whatever cell was entered or imported.
\<close>

record txn =
  Date :: "timestamp option"
  Type :: cell
  Category :: cell
  Description :: cell
  Amount :: "amount option"

type_synonym store = "txn list"

text \<open>Lines 124 and 167: the one-row frame built from a timestamp and the four form values.\<close>

definition new_row :: "timestamp \<Rightarrow> string \<Rightarrow> string \<Rightarrow> string \<Rightarrow> amount \<Rightarrow> txn" where
  "new_row now ty cat desc amt =
     \<lparr>Date = Some now, Type = Str ty, Category = Str cat, Description = Str desc, Amount = Some amt\<rparr>"

text \<open>The rows of a frame that has passed \<open>ensure_schema\<close>.\<close>

definition cell_at :: "string \<Rightarrow> dataframe \<Rightarrow> nat \<Rightarrow> cell" where
  "cell_at n df i =
     (case getitem n df of
        [] \<Rightarrow> NA
      | c # _ \<Rightarrow> (if i < length (cells c) then cells c ! i else NA))"

definition as_time :: "cell \<Rightarrow> timestamp option" where
  "as_time c = (case c of Time t \<Rightarrow> Some t | _ \<Rightarrow> None)"

definition as_num :: "cell \<Rightarrow> amount option" where
  "as_num c = (case c of Num x \<Rightarrow> Some x | _ \<Rightarrow> None)"

definition frame_rows :: "dataframe \<Rightarrow> txn list" where
  "frame_rows df =
     map (\<lambda>i. \<lparr>Date = as_time (cell_at ''Date'' df i),
               Type = cell_at ''Type'' df i,
               Category = cell_at ''Category'' df i,
               Description = cell_at ''Description'' df i,
               Amount = as_num (cell_at ''Amount'' df i)\<rparr>) [0..<nrows df]"

text \<open>
  \<open>pd.concat([store, df], ignore_index=True)\<close> for a frame \<open>df\<close> that comes out of
  \<open>ensure_schema\<close>: its rows go after the store's. Such a frame has other labels than
  \<open>REQUIRED_COLS\<close> only when a label repeats, and then pandas cannot align the columns
  and raises InvalidIndexError.
\<close>

definition concat_rows :: "store \<Rightarrow> dataframe \<Rightarrow> error + store" where
  "concat_rows st df =
     (if col_names df = REQUIRED_COLS then Inr (st @ frame_rows df) else Inl InvalidIndexError)"

text \<open>
  The Date column of the session's table is a datetime column as long as its timestamps are
  all of one time zone, or all without one. \<open>pd.concat\<close> of a column of one zone with a
  row of another (line 169 appends the zone-less \<open>datetime.now()\<close>) gives a column of dtype
  object, which has no \<open>.dt\<close> accessor.
\<close>

definition datetime_like :: "store \<Rightarrow> bool" where
  "datetime_like st =
     (length (remdups (concat (map (\<lambda>r. case Date r of Some t \<Rightarrow> [zone_of t] | None \<Rightarrow> []) st))) \<le> 1)"

text \<open>The session's table as a frame, and line 50: \<open>ensure_schema\<close> applied to it at the start of every run.\<close>

definition store_frame :: "store \<Rightarrow> dataframe" where
  "store_frame st =
     DataFrame (length st)
       [Column ''Date'' (if datetime_like st then DatetimeT else ObjectT)
          (map (\<lambda>r. case Date r of Some t \<Rightarrow> Time t | None \<Rightarrow> NA) st),
        Column ''Type'' ObjectT (map Type st),
        Column ''Category'' ObjectT (map Category st),
        Column ''Description'' ObjectT (map Description st),
        Column ''Amount'' NumericT (map (\<lambda>r. case Amount r of Some a \<Rightarrow> Num a | None \<Rightarrow> NA) st)]"

definition ensure_store ::
  "pandas \<Rightarrow> (cell list \<Rightarrow> cell \<Rightarrow> timestamp option) \<Rightarrow> (cell \<Rightarrow> amount option) \<Rightarrow>
   store \<Rightarrow> error + store" where
  "ensure_store ver P N st =
     (case ensure_schema ver P N (PyDataFrame (store_frame st)) of
        Inl e \<Rightarrow> Inl e
      | Inr df \<Rightarrow> Inr (frame_rows df))"

section \<open>Recurring transactions\<close>

record rule =
  r_Type :: string
  r_Category :: string
  r_Amount :: amount
  r_Description :: string

text \<open>\<open>Date.dt.strftime("%B %Y") == label\<close> on one row: NaT never equals a label.\<close>

definition in_month :: "month_label \<Rightarrow> txn \<Rightarrow> bool" where
  "in_month m r = (case Date r of None \<Rightarrow> False | Some t \<Rightarrow> strftime_BY t = m)"

text \<open>
  Lines 158 to 165. The third comparison reads \<open>Date.dt\<close>, which raises AttributeError when
  the Date column is not a datetime column.
\<close>

definition rec_exists :: "month_label \<Rightarrow> rule \<Rightarrow> store \<Rightarrow> error + bool" where
  "rec_exists now_month rec st =
     (if st \<noteq> [] then
        (if datetime_like st then
           Inr (list_ex (\<lambda>r. Description r = Str (r_Description rec)
                           \<and> Category r = Str (r_Category rec)
                           \<and> in_month now_month r) st)
         else Inl AttributeError)
      else Inr False)"

text \<open>Lines 158 to 169, one round of the loop; \<open>now\<close> is what \<open>datetime.now()\<close> returns on line 167.\<close>

definition apply_rule :: "month_label \<Rightarrow> timestamp \<Rightarrow> rule \<Rightarrow> store \<Rightarrow> error + store" where
  "apply_rule now_month now rec st =
     (case rec_exists now_month rec st of
        Inl e \<Rightarrow> Inl e
      | Inr found \<Rightarrow>
          (if \<not> found then
             Inr (st @ [new_row now (r_Type rec) (r_Category rec) (r_Description rec) (r_Amount rec)])
           else Inr st))"

text \<open>
  The loop of line 157. Every rule comes with the clock reading that line 167 would take in
  its round (the reading is used only when the rule inserts). An exception ends the loop and
  the run; the table keeps the rows appended before it.
\<close>

fun apply_recurring :: "month_label \<Rightarrow> (timestamp \<times> rule) list \<Rightarrow> store \<Rightarrow> store \<times> error option" where
  "apply_recurring now_month [] st = (st, None)"
| "apply_recurring now_month ((now, rec) # rest) st =
     (case apply_rule now_month now rec st of
        Inl e \<Rightarrow> (st, Some e)
      | Inr st' \<Rightarrow> apply_recurring now_month rest st')"

text \<open>
  One run of the script as far as the recurring rules go, when no form is submitted: line 50,
  then lines 156 to 169; \<open>t0\<close> is the clock reading of line 156. Running the reconciliation
  twice is two runs of the script, each with its line 50.
\<close>

definition recurring_run ::
  "pandas \<Rightarrow> (cell list \<Rightarrow> cell \<Rightarrow> timestamp option) \<Rightarrow> (cell \<Rightarrow> amount option) \<Rightarrow>
   timestamp \<Rightarrow> (timestamp \<times> rule) list \<Rightarrow> store \<Rightarrow> store \<times> error option" where
  "recurring_run ver P N t0 recs st =
     (case ensure_store ver P N st of
        Inl e \<Rightarrow> (st, Some e)
      | Inr st0 \<Rightarrow> apply_recurring (strftime_BY t0) recs st0)"

section \<open>Budgets\<close>



text \<open>\<open>Series.sum()\<close> of the Amount column: null markers are skipped, the empty sum is 0.\<close>

definition sum_amounts :: "store \<Rightarrow> amount" where
  "sum_amounts rows = sum_list (map (\<lambda>r. case Amount r of None \<Rightarrow> 0 | Some a \<Rightarrow> a) rows)"







section \<open>Monthly summary\<close>

text \<open>\<open>df[df["Type"] == kind]["Amount"].sum()\<close>, lines 274 and 275.\<close>

definition total_of :: "string \<Rightarrow> store \<Rightarrow> amount" where
  "total_of kind df = sum_amounts (filter (\<lambda>r. Type r = Str kind) df)"

definition monthly_summary :: "month_label \<Rightarrow> store \<Rightarrow> amount \<times> amount \<times> amount" where
  "monthly_summary current_month st =
     (let month_df = filter (in_month current_month) st in
      if month_df \<noteq> [] then
        (let income = total_of ''Income'' month_df;
             expenses = total_of ''Expense'' month_df
         in (income, expenses, income - expenses))
      else (0, 0, 0))"

section \<open>Import\<close>

record upload =
  up_name :: string
  up_data :: "nat list"

definition endswith :: "string \<Rightarrow> string \<Rightarrow> bool" where
  "endswith s ending = (length ending \<le> length s \<and> drop (length s - length ending) s = ending)"

datatype notice = Success string | Failure error

text \<open>
  The body of the \<open>try\<close>, lines 208 to 213. \<open>read_csv\<close> and \<open>read_excel\<close> are the
  readers of the library, as parameters: each returns a frame or the exception it raises.
\<close>

definition import_try ::
  "pandas \<Rightarrow> (nat list \<Rightarrow> error + dataframe) \<Rightarrow> (nat list \<Rightarrow> error + dataframe) \<Rightarrow>
   (cell list \<Rightarrow> cell \<Rightarrow> timestamp option) \<Rightarrow> (cell \<Rightarrow> amount option) \<Rightarrow>
   upload \<Rightarrow> store \<Rightarrow> error + store" where
  "import_try ver read_csv read_excel P N uploaded st =
     (case (if endswith (up_name uploaded) ''.csv'' then read_csv (up_data uploaded)
            else read_excel (up_data uploaded)) of
        Inl e \<Rightarrow> Inl e
      | Inr df_new \<Rightarrow>
          (case ensure_schema ver P N (PyDataFrame df_new) of
             Inl e \<Rightarrow> Inl e
           | Inr df \<Rightarrow> concat_rows st df))"

text \<open>Lines 206 to 216: the store after the block and what is shown to the user.\<close>

definition import_block ::
  "pandas \<Rightarrow> (nat list \<Rightarrow> error + dataframe) \<Rightarrow> (nat list \<Rightarrow> error + dataframe) \<Rightarrow>
   (cell list \<Rightarrow> cell \<Rightarrow> timestamp option) \<Rightarrow> (cell \<Rightarrow> amount option) \<Rightarrow>
   upload option \<Rightarrow> store \<Rightarrow> store \<times> notice list" where
  "import_block ver read_csv read_excel P N uploaded st =
     (case uploaded of
        None \<Rightarrow> (st, [])
      | Some up \<Rightarrow>
          (case import_try ver read_csv read_excel P N up st of
             Inr st' \<Rightarrow> (st', [Success ''Data Imported!''])
           | Inl e \<Rightarrow> (st, [Failure e])))"

section \<open>Filters\<close>

text \<open>
  Line 224, \<open>df["Description"].str\<close>: the accessor exists on a column of dtype object
  unless the values that are not null are all numbers or all timestamps; otherwise pandas
  raises AttributeError. \<open>desc_dtype\<close> below is the dtype of the Description column: object
  once the table holds a string, numeric when the table was built from a file whose
  descriptions are all numbers or all empty.
\<close>

definition is_num :: "cell \<Rightarrow> bool" where
  "is_num c = (case c of Num x \<Rightarrow> True | _ \<Rightarrow> False)"

definition is_time :: "cell \<Rightarrow> bool" where
  "is_time c = (case c of Time t \<Rightarrow> True | _ \<Rightarrow> False)"

definition str_accessor :: "dtype \<Rightarrow> cell list \<Rightarrow> bool" where
  "str_accessor desc_dtype col =
     (let vals = filter (\<lambda>c. c \<noteq> NA) col
      in desc_dtype = ObjectT \<and> \<not> (vals \<noteq> [] \<and> (list_all is_num vals \<or> list_all is_time vals)))"

text \<open>
  \<open>str.contains(pat, case=False, na=False)\<close> compiles \<open>pat\<close> as a regular expression
  with the flag IGNORECASE and searches every string cell with it. The part of the regular
  expression language that is written out here: patterns of ASCII characters in which the
  only special character is the dot, searched in ASCII strings. There a pattern is found
  where each of its characters meets its like, letters compared without regard to case and
  the dot meeting any character but the newline. Every other pattern and every other string
  is left to the engine of the library, the parameter \<open>eng\<close>: whether the pattern compiles,
  and whether it is found in a string.
\<close>

definition is_ascii :: "string \<Rightarrow> bool" where
  "is_ascii s = list_all (\<lambda>c. (of_char c :: nat) < 128) s"

definition lower :: "char \<Rightarrow> char" where
  "lower c = (if 65 \<le> (of_char c :: nat) \<and> (of_char c :: nat) \<le> 90 then char_of (of_char c + 32 :: nat) else c)"

definition metachars :: string where
  "metachars = ''.^$*+?{}[]|()'' @ [CHR 0x5C]"

definition dotted_pattern :: "string \<Rightarrow> bool" where
  "dotted_pattern pat = (is_ascii pat \<and> list_all (\<lambda>c. c = CHR ''.'' \<or> c \<notin> set metachars) pat)"

definition match_char :: "char \<Rightarrow> char \<Rightarrow> bool" where
  "match_char p c = (if p = CHR ''.'' then c \<noteq> CHR 0x0A else lower p = lower c)"

definition found_at :: "string \<Rightarrow> string \<Rightarrow> nat \<Rightarrow> bool" where
  "found_at pat s i = (i + length pat \<le> length s \<and> list_all2 match_char pat (take (length pat) (drop i s)))"

definition dotted_search :: "string \<Rightarrow> string \<Rightarrow> bool" where
  "dotted_search pat s = list_ex (found_at pat s) [0..<Suc (length s)]"

record engine =
  re_error :: "string \<Rightarrow> error option"
  re_found :: "string \<Rightarrow> string \<Rightarrow> bool"

definition re_compile :: "engine \<Rightarrow> string \<Rightarrow> error option" where
  "re_compile eng pat = (if dotted_pattern pat then None else re_error eng pat)"

definition re_search :: "engine \<Rightarrow> string \<Rightarrow> string \<Rightarrow> bool" where
  "re_search eng pat s =
     (if dotted_pattern pat \<and> is_ascii s then dotted_search pat s else re_found eng pat s)"

text \<open>
  Lines 223 and 224. A cell that is not a string gives the \<open>na\<close> value, False.
\<close>

definition text_filter :: "engine \<Rightarrow> dtype \<Rightarrow> string \<Rightarrow> store \<Rightarrow> error + store" where
  "text_filter eng desc_dtype search_text df =
     (if search_text \<noteq> [] then
        (if \<not> str_accessor desc_dtype (map Description df) then Inl AttributeError
         else
           (case re_compile eng search_text of
              Some e \<Rightarrow> Inl e
            | None \<Rightarrow>
                Inr (filter (\<lambda>r. case Description r of
                                   Str s \<Rightarrow> re_search eng search_text s
                                 | _ \<Rightarrow> False) df)))
      else Inr df)"

section \<open>Editing\<close>

record edit_form =
  e_type :: string
  e_cat :: string
  e_amt :: amount
  e_desc :: string
  save_edit :: bool

text \<open>
  \<open>df.at[i, column] = v\<close> at a position of the table. The columns of the table have
  dtypes, and a value that the dtype of its column cannot hold without loss is refused with
  TypeError by pandas 3 (pandas 2 widens the column instead). \<open>holds col v\<close> says whether
  the column labelled \<open>col\<close>, as it is in the table, takes the value \<open>v\<close>.
\<close>

definition at_set ::
  "(string \<Rightarrow> cell \<Rightarrow> bool) \<Rightarrow> string \<Rightarrow> cell \<Rightarrow> nat \<Rightarrow> (txn \<Rightarrow> txn) \<Rightarrow> store \<Rightarrow> error + store" where
  "at_set holds col v i upd st = (if holds col v then Inr (st[i := upd (st ! i)]) else Inl TypeError)"

text \<open>
  Lines 257 to 261: five assignments, one after the other, on the table itself. The one that
  raises ends the run, and the assignments before it stay. The position is inside the table:
  line 245 has read the row there.
\<close>

definition update_at ::
  "(string \<Rightarrow> cell \<Rightarrow> bool) \<Rightarrow> nat \<Rightarrow> edit_form \<Rightarrow> timestamp \<Rightarrow> store \<Rightarrow> store \<times> error option" where
  "update_at holds edit_index f now st =
     (case at_set holds ''Type'' (Str (e_type f)) edit_index (\<lambda>r. r\<lparr>Type := Str (e_type f)\<rparr>) st of
        Inl e \<Rightarrow> (st, Some e)
      | Inr s1 \<Rightarrow>
     (case at_set holds ''Category'' (Str (e_cat f)) edit_index (\<lambda>r. r\<lparr>Category := Str (e_cat f)\<rparr>) s1 of
        Inl e \<Rightarrow> (s1, Some e)
      | Inr s2 \<Rightarrow>
     (case at_set holds ''Amount'' (Num (e_amt f)) edit_index (\<lambda>r. r\<lparr>Amount := Some (e_amt f)\<rparr>) s2 of
        Inl e \<Rightarrow> (s2, Some e)
      | Inr s3 \<Rightarrow>
     (case at_set holds ''Description'' (Str (e_desc f)) edit_index (\<lambda>r. r\<lparr>Description := Str (e_desc f)\<rparr>) s3 of
        Inl e \<Rightarrow> (s3, Some e)
      | Inr s4 \<Rightarrow>
     (case at_set holds ''Date'' (Time now) edit_index (\<lambda>r. r\<lparr>Date := Some now\<rparr>) s4 of
        Inl e \<Rightarrow> (s4, Some e)
      | Inr s5 \<Rightarrow> (s5, None))))))"

text \<open>
  Lines 243 to 264. \<open>iloc\<close> raises IndexError outside the table, \<open>list.index\<close> raises
  ValueError when the row's type or category is not one of the options of its widget, and
  the amount widget, whose \<open>min_value\<close> is 0, refuses a negative amount as its value.
\<close>

definition edit_block ::
  "(string \<Rightarrow> cell \<Rightarrow> bool) \<Rightarrow> nat \<Rightarrow> edit_form \<Rightarrow> timestamp \<Rightarrow> store \<Rightarrow> store \<times> error option" where
  "edit_block holds edit_index f now st =
     (if st \<noteq> [] then
        (if edit_index < length st then
           (let row = st ! edit_index in
            if Type row \<notin> set [Str ''Income'', Str ''Expense''] then (st, Some ValueError)
            else if Category row \<notin> set (map Str CATEGORY_OPTIONS) then (st, Some ValueError)
            else if (case Amount row of Some a \<Rightarrow> a < 0 | None \<Rightarrow> False)
              then (st, Some StreamlitAPIException)
            else if save_edit f then update_at holds edit_index f now st
            else (st, None))
         else (st, Some IndexError))
      else (st, None))"

section \<open>Balance over time\<close>

text \<open>
  \<open>sort_values("Date")\<close>, as pandas computes it: the rows with a date are ordered by the
  sort of the library applied to their keys, the rows without a date follow in their own
  order. The sort of the library is the parameter \<open>argsort\<close> (positions into the keys,
  in sorted order). The program does not pass \<open>kind\<close>, so it is pandas' default
  \<open>quicksort\<close>, which pandas documents as not stable; \<open>argsort_ok\<close> is what the library
  promises of it.
\<close>

definition sort_values_Date :: "((nat \<times> nat \<times> nat) list \<Rightarrow> nat list) \<Rightarrow> store \<Rightarrow> store" where
  "sort_values_Date argsort df =
     (let non_nans = filter (\<lambda>r. Date r \<noteq> None) df;
          nans = filter (\<lambda>r. Date r = None) df;
          indexer = argsort (map (\<lambda>r. ts_key (the (Date r))) non_nans)
      in map (\<lambda>i. non_nans ! i) indexer @ nans)"

definition argsort_ok :: "((nat \<times> nat \<times> nat) list \<Rightarrow> nat list) \<Rightarrow> bool" where
  "argsort_ok argsort =
     (\<forall>ks. mset (argsort ks) = mset [0..<length ks] \<and> sorted (map (\<lambda>i. ks ! i) (argsort ks)))"

text \<open>A stable sort of the positions.\<close>

definition stable_argsort :: "(nat \<times> nat \<times> nat) list \<Rightarrow> nat list" where
  "stable_argsort ks = sort_key (\<lambda>i. ks ! i) [0..<length ks]"

subsection \<open>The quicksort of numpy\<close>

text \<open>
  The sort that pandas' default reaches: numpy's \<open>argsort\<close> of kind quicksort, in its
  scalar form (\<open>aquicksort\<close>). A part of at most 17 positions is sorted by insertion, which
  is stable. A longer part is partitioned: the median of its first, middle and last key
  becomes the pivot and is parked next to the end, two cursors run towards each other, each
  stopping at a key that is not strictly on its side of the pivot, and the positions they stop
  at are exchanged; equal keys are exchanged too. The pivot then goes between the two parts.
\<close>

definition swap_at :: "nat \<Rightarrow> nat \<Rightarrow> nat list \<Rightarrow> nat list" where
  "swap_at i j a = a[i := a ! j, j := a ! i]"

text \<open>\<open>npy_get_msb\<close>: the position of the highest bit.\<close>

fun msb :: "nat \<Rightarrow> nat" where
  "msb n = (if n \<le> 1 then 0 else Suc (msb (n div 2)))"

text \<open>The three conditional exchanges that order the first, middle and last key of a part.\<close>

definition median3 :: "'k::linorder list \<Rightarrow> nat list \<Rightarrow> nat list" where
  "median3 ks a =
     (let pr = length a - 1; pm = pr div 2;
          a1 = (if ks ! (a ! pm) < ks ! (a ! 0) then swap_at pm 0 a else a);
          a2 = (if ks ! (a1 ! pr) < ks ! (a1 ! pm) then swap_at pr pm a1 else a1)
      in if ks ! (a2 ! pm) < ks ! (a2 ! 0) then swap_at pm 0 a2 else a2)"

text \<open>
  The loop of the two cursors: \<open>do ++pi while key < pivot\<close>, \<open>do --pj while pivot < key\<close>,
  stop when they have met, exchange otherwise.
\<close>

function part_loop :: "'k::linorder list \<Rightarrow> 'k \<Rightarrow> nat list \<Rightarrow> nat \<Rightarrow> nat \<Rightarrow> nat list \<times> nat" where
  "part_loop ks vp a i j =
     (if j - Suc (length (takeWhile (\<lambda>x. vp < ks ! x) (rev (take j a))))
         \<le> Suc i + length (takeWhile (\<lambda>x. ks ! x < vp) (drop (Suc i) a))
      then (a, Suc i + length (takeWhile (\<lambda>x. ks ! x < vp) (drop (Suc i) a)))
      else part_loop ks vp
             (swap_at (Suc i + length (takeWhile (\<lambda>x. ks ! x < vp) (drop (Suc i) a)))
                      (j - Suc (length (takeWhile (\<lambda>x. vp < ks ! x) (rev (take j a))))) a)
             (Suc i + length (takeWhile (\<lambda>x. ks ! x < vp) (drop (Suc i) a)))
             (j - Suc (length (takeWhile (\<lambda>x. vp < ks ! x) (rev (take j a))))))"
  by pat_completeness auto
termination
  by (relation "measure (\<lambda>(ks, vp, a, i, j). j - i)") auto

text \<open>One partition of a part: the positions rearranged, and where the pivot stands.\<close>

definition partition_part :: "'k::linorder list \<Rightarrow> nat list \<Rightarrow> nat list \<times> nat" where
  "partition_part ks a =
     (let pr = length a - 1; pm = pr div 2;
          a3 = median3 ks a;
          vp = ks ! (a3 ! pm)
      in case part_loop ks vp (swap_at pm (pr - 1) a3) 0 (pr - 1) of
           (a5, p) \<Rightarrow> (swap_at p (pr - 1) a5, p))"

text \<open>
  The sort of a part. After a partition numpy goes on with the smaller side and puts the
  larger side aside with the depth counter; a side that is taken up again with a negative
  counter is sorted by heapsort, which is not modelled (\<open>None\<close>). That needs more than 17
  positions and a run of lopsided partitions as long as twice the bit length of the input.
\<close>

function aquicksort :: "'k::linorder list \<Rightarrow> int \<Rightarrow> nat list \<Rightarrow> nat list option" where
  "aquicksort ks cdepth a =
     (if length a \<le> 17 then Some (sort_key (\<lambda>i. ks ! i) a)
      else
        (case partition_part ks a of
           (b, p) \<Rightarrow>
             (if p < length b \<and> length b = length a then
                (case (if \<not> p < (length a - 1) - p \<and> cdepth - 1 < 0 then None
                       else aquicksort ks (cdepth - 1) (take p b),
                       if p < (length a - 1) - p \<and> cdepth - 1 < 0 then None
                       else aquicksort ks (cdepth - 1) (drop (Suc p) b)) of
                   (Some l, Some r) \<Rightarrow> Some (l @ [b ! p] @ r)
                 | _ \<Rightarrow> None)
              else None)))"
  by pat_completeness auto
termination
  by (relation "measure (\<lambda>(ks, cdepth, a). length a)") auto

definition numpy_argsort :: "'k::linorder list \<Rightarrow> nat list option" where
  "numpy_argsort ks = aquicksort ks (2 * int (msb (length ks))) [0..<length ks]"

text \<open>The sort as \<open>sort_values_Date\<close> takes it; outside what is modelled it gives no positions.\<close>

definition numpy_sort :: "(nat \<times> nat \<times> nat) list \<Rightarrow> nat list" where
  "numpy_sort ks = (case numpy_argsort ks of Some idx \<Rightarrow> idx | None \<Rightarrow> [])"

subsection \<open>The chart\<close>

text \<open>Line 327.\<close>

definition delta :: "txn \<Rightarrow> amount option" where
  "delta r = (if Type r = Str ''Income'' then Amount r else map_option uminus (Amount r))"

text \<open>\<open>Series.cumsum()\<close>: a null marker stays null and adds nothing to the running sum.\<close>

fun cumsum :: "amount \<Rightarrow> amount option list \<Rightarrow> amount option list" where
  "cumsum acc [] = []"
| "cumsum acc (None # xs) = None # cumsum acc xs"
| "cumsum acc (Some d # xs) = Some (acc + d) # cumsum (acc + d) xs"

text \<open>Lines 325 to 328: the sorted rows with their Balance, or nothing for an empty table.\<close>

definition balance_chart ::
  "((nat \<times> nat \<times> nat) list \<Rightarrow> nat list) \<Rightarrow> store \<Rightarrow> (txn \<times> amount option) list option" where
  "balance_chart argsort st =
     (let df_sorted = sort_values_Date argsort st in
      if df_sorted \<noteq> [] then Some (zip df_sorted (cumsum 0 (map delta df_sorted)))
      else None)"

section \<open>Definitions for the statements about ensure\_schema\<close>

text \<open>The dtype that lines 24 to 29 give a column they create.\<close>

definition missing_dtype :: "string \<Rightarrow> dtype" where
  "missing_dtype n = (if n = ''Date'' then DatetimeT else if n = ''Amount'' then NumericT else ObjectT)"

text \<open>The columns that carry a required label once the loop of line 22 has run.\<close>

definition required_group :: "string \<Rightarrow> dataframe \<Rightarrow> column list" where
  "required_group n T =
     (if n \<in> set (col_names T) then getitem n T else [null_column n (missing_dtype n) (nrows T)])"

text \<open>
  A date parser and a number parser for the examples. The date parser reads three dates, two
  of them written with a UTC offset: one hour and two hours east.
\<close>

definition sample_dates :: "cell list \<Rightarrow> cell \<Rightarrow> timestamp option" where
  "sample_dates col c =
     (if c = Str ''2024-01-05'' then Some (Timestamp 2024 1 5)
      else if c = Str ''2024-01-05T10:00:00+01:00'' then Some (TimestampTz 2024 1 5 60)
      else if c = Str ''2024-01-06T10:00:00+02:00'' then Some (TimestampTz 2024 1 6 120)
      else None)"

definition sample_numbers :: "cell \<Rightarrow> amount option" where
  "sample_numbers c = (if c = Str ''12.5'' then Some 12.5 else None)"

text \<open>A file with two dates of different UTC offsets, as \<open>read_csv\<close> returns it.\<close>

definition two_offsets :: dataframe where
  "two_offsets =
     DataFrame 2
       [Column ''Date'' ObjectT [Str ''2024-01-05T10:00:00+01:00'', Str ''2024-01-06T10:00:00+02:00''],
        Column ''Type'' ObjectT [Str ''Expense'', Str ''Expense''],
        Column ''Category'' ObjectT [Str ''Food'', Str ''Food''],
        Column ''Description'' ObjectT [Str ''lunch'', Str ''dinner''],
        Column ''Amount'' NumericT [Num 12, Num 30]]"

section \<open>Definitions for the statements about recurring transactions\<close>

text \<open>An imported transaction whose date has a time zone, one hour east of UTC.\<close>

definition zoned_lunch :: txn where
  "zoned_lunch =
     \<lparr>Date = Some (TimestampTz 2024 1 5 60), Type = Str ''Expense'', Category = Str ''Food'',
      Description = Str ''lunch'', Amount = Some 12\<rparr>"

text \<open>The rule of the specification's scenario.\<close>

definition rent_rule :: rule where
  "rent_rule = \<lparr>r_Type = ''Expense'', r_Category = ''Bills'', r_Amount = 50, r_Description = ''rent''\<rparr>"

section \<open>Definitions for the statements about budgets\<close>



definition lunch :: "timestamp \<Rightarrow> amount \<Rightarrow> txn" where
  "lunch t a =
     \<lparr>Date = Some t, Type = Str ''Expense'', Category = Str ''Food'',
      Description = Str ''lunch'', Amount = Some a\<rparr>"

section \<open>Definitions for the statements about import, filters and editing\<close>

text \<open>The reader that line 208 to 211 pick by the file name.\<close>

definition read_upload ::
  "(nat list \<Rightarrow> error + dataframe) \<Rightarrow> (nat list \<Rightarrow> error + dataframe) \<Rightarrow> upload \<Rightarrow> error + dataframe" where
  "read_upload read_csv read_excel up =
     (if endswith (up_name up) ''.csv'' then read_csv (up_data up) else read_excel (up_data up))"

text \<open>
  Readers for the examples: a file without bytes has nothing to parse; any other file reads
  as one row with a description and a date.
\<close>

definition sample_reader :: "nat list \<Rightarrow> error + dataframe" where
  "sample_reader bytes =
     (if bytes = [] then Inl (ParserError ''No columns to parse from file'')
      else Inr (DataFrame 1
        [Column ''Description'' ObjectT [Str ''rent''], Column ''Date'' ObjectT [Str ''2024-01-05'']]))"




definition note_row :: "cell \<Rightarrow> txn" where
  "note_row d =
     \<lparr>Date = Some (Timestamp 2024 1 5), Type = Str ''Expense'', Category = Str ''Other'',
      Description = d, Amount = Some 5\<rparr>"

text \<open>Values of the edit form for the examples.\<close>

definition sample_edit :: edit_form where
  "sample_edit = \<lparr>e_type = ''Income'', e_cat = ''Other'', e_amt = 75.5, e_desc = ''refund'', save_edit = True\<rparr>"

text \<open>
  A table whose Amount column is of dtype int64 (the amounts of the imported file are whole
  numbers) under pandas 3: the column takes whole numbers only. And a table that takes
  every value.
\<close>

definition int64_amounts :: "string \<Rightarrow> cell \<Rightarrow> bool" where
  "int64_amounts col v =
     (if col = ''Amount'' then (case v of Num x \<Rightarrow> of_int \<lfloor>x\<rfloor> = x | _ \<Rightarrow> False) else True)"


section \<open>Definitions for the statements about the balance series\<close>

text \<open>The sum of the signed deltas of some rows, null markers skipped.\<close>

definition net_of :: "store \<Rightarrow> amount" where
  "net_of rows = sum_list (map (\<lambda>r. case delta r of None \<Rightarrow> 0 | Some d \<Rightarrow> d) rows)"

text \<open>Rows for the examples.\<close>

definition entry :: "timestamp option \<Rightarrow> string \<Rightarrow> amount option \<Rightarrow> txn" where
  "entry d kind a =
     \<lparr>Date = d, Type = Str kind, Category = Str ''Other'', Description = Str '''', Amount = a\<rparr>"

text \<open>Eighteen expenses of one date, numbered by their amount, in the order of their insertion.\<close>

definition tied_rows :: store where
  "tied_rows = map (\<lambda>i. entry (Some (Timestamp 2024 1 5)) ''Expense'' (Some (of_nat i))) [0..<18]"

section \<open>Facts about the table operations\<close>

lemma REQUIRED_COLS_distinct: "distinct REQUIRED_COLS"
  by (simp add: REQUIRED_COLS_def)

lemma add_missing_alt:
  "add_missing col df =
     (if col \<notin> set (col_names df)
      then DataFrame (nrows df) (columns df @ [null_column col (missing_dtype col) (nrows df)])
      else df)"
  by (simp add: add_missing_def missing_dtype_def)

lemma nrows_add_missing: "nrows (add_missing n df) = nrows df"
  by (simp add: add_missing_alt)

lemma nrows_fold_add_missing: "nrows (fold add_missing ns df) = nrows df"
  by (induction ns arbitrary: df) (simp_all add: nrows_add_missing)

lemma getitem_empty_iff: "getitem n df = [] \<longleftrightarrow> n \<notin> set (col_names df)"
  by (auto simp: getitem_def col_names_def filter_empty_conv)

lemma col_names_add_missing:
  "set (col_names (add_missing m df)) = insert m (set (col_names df))"
  by (auto simp: add_missing_alt col_names_def null_column_def)

lemma mem_col_names_iff: "n \<in> set (col_names df) \<longleftrightarrow> getitem n df \<noteq> []"
  by (simp add: getitem_empty_iff)

lemma getitem_add_missing_other: "n \<noteq> m \<Longrightarrow> getitem n (add_missing m df) = getitem n df"
  by (simp add: add_missing_alt getitem_def null_column_def)

lemma getitem_add_missing_same: "getitem m (add_missing m df) = required_group m df"
  by (auto simp: add_missing_alt getitem_def null_column_def required_group_def col_names_def
      filter_empty_conv)

lemma required_group_add_missing:
  "n \<noteq> m \<Longrightarrow> required_group n (add_missing m df) = required_group n df"
  by (simp add: required_group_def col_names_add_missing getitem_add_missing_other nrows_add_missing)

lemma getitem_fold_add_missing:
  "distinct ns \<Longrightarrow>
   getitem n (fold add_missing ns df) =
     (if n \<in> set ns then required_group n df else getitem n df)"
proof (induction ns arbitrary: df)
  case Nil
  then show ?case by simp
next
  case (Cons m ns)
  have ih: "getitem n (fold add_missing ns (add_missing m df)) =
      (if n \<in> set ns then required_group n (add_missing m df) else getitem n (add_missing m df))"
    using Cons by simp
  show ?case
  proof (cases "n = m")
    case True
    then show ?thesis using Cons.prems ih by (simp add: getitem_add_missing_same)
  next
    case False
    then show ?thesis
      using ih by (simp add: required_group_add_missing getitem_add_missing_other)
  qed
qed

lemma cname_getitem: "c \<in> set (getitem n df) \<Longrightarrow> cname c = n"
  by (simp add: getitem_def)

lemma cname_required_group: "c \<in> set (required_group n T) \<Longrightarrow> cname c = n"
  by (auto simp: required_group_def null_column_def dest: cname_getitem split: if_splits)

lemma required_group_nonempty: "required_group n T \<noteq> []"
  by (simp add: required_group_def getitem_empty_iff)

lemma filter_required_group:
  "filter (\<lambda>c. cname c = m) (required_group n T) = (if m = n then required_group n T else [])"
  by (auto simp: filter_empty_conv filter_id_conv dest: cname_required_group)

lemma select_required:
  "select_cols REQUIRED_COLS (fold add_missing REQUIRED_COLS T) =
     Inr (DataFrame (nrows T)
       (required_group ''Date'' T @ required_group ''Type'' T @ required_group ''Category'' T @
        required_group ''Description'' T @ required_group ''Amount'' T))"
proof -
  have g: "\<And>n. n \<in> set REQUIRED_COLS \<Longrightarrow>
      getitem n (fold add_missing REQUIRED_COLS T) = required_group n T"
    by (simp add: getitem_fold_add_missing REQUIRED_COLS_distinct)
  have "list_all (\<lambda>n. n \<in> set (col_names (fold add_missing REQUIRED_COLS T))) REQUIRED_COLS"
    unfolding list_all_iff
    using g required_group_nonempty getitem_empty_iff by metis
  moreover have "concat (map (\<lambda>n. getitem n (fold add_missing REQUIRED_COLS T)) REQUIRED_COLS) =
      required_group ''Date'' T @ required_group ''Type'' T @ required_group ''Category'' T @
        required_group ''Description'' T @ required_group ''Amount'' T"
    using g by (simp add: REQUIRED_COLS_def)
  ultimately show ?thesis
    by (simp add: select_cols_def nrows_fold_add_missing)
qed

lemma map_required_group:
  "map (\<lambda>c. if cname c = m then X else c) (required_group n T) =
     (if m = n then map (\<lambda>c. X) (required_group n T) else required_group n T)"
proof (cases "m = n")
  case True
  then show ?thesis
    by (simp add: cname_required_group cong: map_cong)
next
  case False
  then have "map (\<lambda>c. if cname c = m then X else c) (required_group n T) =
      map (\<lambda>c. c) (required_group n T)"
    by (intro map_cong) (auto dest: cname_required_group)
  then show ?thesis using False by simp
qed

lemma to_datetime_cases:
  "to_datetime ver P arg = Inr d \<Longrightarrow> \<exists>s. arg = [s] \<and> cname d = cname s"
  by (auto simp: to_datetime_def Let_def split: list.splits if_splits pandas.splits)

lemma to_numeric_cases:
  "to_numeric N arg = Inr a \<Longrightarrow>
     \<exists>s. arg = [s] \<and> a = Column (cname s) NumericT (map (coerce_num N) (cells s))"
  by (auto simp: to_numeric_def split: list.splits)

lemma ensure_schema_frame:
  "ensure_schema ver P N (PyDataFrame T) =
     (case to_datetime ver P (required_group ''Date'' T) of
        Inl e \<Rightarrow> Inl e
      | Inr d \<Rightarrow>
          (case to_numeric N (required_group ''Amount'' T) of
             Inl e \<Rightarrow> Inl e
           | Inr a \<Rightarrow>
               Inr (DataFrame (nrows T)
                 ([d] @ required_group ''Type'' T @ required_group ''Category'' T @
                  required_group ''Description'' T @ [a]))))"
proof (cases "to_datetime ver P (required_group ''Date'' T)")
  case (Inl e)
  then show ?thesis
    by (simp add: ensure_schema_def select_required getitem_def filter_required_group)
next
  case (Inr d)
  then obtain s where s: "required_group ''Date'' T = [s]" and ds: "cname d = cname s"
    using to_datetime_cases by blast
  have ns: "cname s = ''Date''"
    using cname_required_group[of s "''Date''" T] s by simp
  have cd: "cname d = ''Date''"
    using ds ns by simp
  have d: "Column ''Date'' (cdtype d) (cells d) = d"
    using cd by (cases d) simp
  show ?thesis
  proof (cases "to_numeric N (required_group ''Amount'' T)")
    case (Inl e)
    then show ?thesis
      using Inr
      by (simp add: ensure_schema_def select_required getitem_def setitem_def
          filter_required_group map_required_group)
  next
    case (Inr a)
    then obtain u where u: "required_group ''Amount'' T = [u]"
      and a: "a = Column (cname u) NumericT (map (coerce_num N) (cells u))"
      using to_numeric_cases by blast
    have nu: "cname u = ''Amount''"
      using cname_required_group[of u "''Amount''" T] u by simp
    show ?thesis
      using \<open>to_datetime ver P (required_group ''Date'' T) = Inr d\<close> Inr
      apply (simp add: ensure_schema_def select_required getitem_def setitem_def
          filter_required_group map_required_group)
      apply (simp add: s u d a ns nu cd)
      done
  qed
qed

lemma ensure_schema_obj:
  "ensure_schema ver P N obj =
     ensure_schema ver P N (PyDataFrame (case obj of PyDataFrame d \<Rightarrow> d | _ \<Rightarrow> empty_frame))"
  by (simp add: ensure_schema_def split: pyobj.splits)

text \<open>
  Claim C10. Given \<open>None\<close>, or any object that is not a DataFrame, \<open>ensure_schema\<close>
  returns the table without rows that has exactly the five required columns, and does not raise.
\<close>

theorem ensure_schema_not_a_table:
  "ensure_schema ver P N PyNone =
     Inr (DataFrame 0
        [Column ''Date'' DatetimeT [], Column ''Type'' ObjectT [], Column ''Category'' ObjectT [],
         Column ''Description'' ObjectT [], Column ''Amount'' NumericT []])
   \<and> ensure_schema ver P N (PyOther v) =
     Inr (DataFrame 0
        [Column ''Date'' DatetimeT [], Column ''Type'' ObjectT [], Column ''Category'' ObjectT [],
         Column ''Description'' ObjectT [], Column ''Amount'' NumericT []])"
  by (simp add: ensure_schema_obj[of ver P N PyNone] ensure_schema_obj[of ver P N "PyOther v"]
      ensure_schema_frame empty_frame_def REQUIRED_COLS_def required_group_def col_names_def
      getitem_def to_datetime_def to_numeric_def zones_def)

theorem ensure_schema_not_a_table_witness:
  "ensure_schema Pandas3 sample_dates sample_numbers PyNone =
     Inr (DataFrame 0
        [Column ''Date'' DatetimeT [], Column ''Type'' ObjectT [], Column ''Category'' ObjectT [],
         Column ''Description'' ObjectT [], Column ''Amount'' NumericT []])
   \<and> ensure_schema Pandas3 sample_dates sample_numbers (PyOther ''[1, 2, 3]'') =
     Inr (DataFrame 0
        [Column ''Date'' DatetimeT [], Column ''Type'' ObjectT [], Column ''Category'' ObjectT [],
         Column ''Description'' ObjectT [], Column ''Amount'' NumericT []])"
  by (rule ensure_schema_not_a_table)

lemma two_offsets_pandas2:
  "ensure_schema Pandas2 sample_dates sample_numbers (PyDataFrame two_offsets) =
     Inr (DataFrame 2
       [Column ''Date'' ObjectT [Time (TimestampTz 2024 1 5 60), Time (TimestampTz 2024 1 6 120)],
        Column ''Type'' ObjectT [Str ''Expense'', Str ''Expense''],
        Column ''Category'' ObjectT [Str ''Food'', Str ''Food''],
        Column ''Description'' ObjectT [Str ''lunch'', Str ''dinner''],
        Column ''Amount'' NumericT [Num 12, Num 30]])"
  by (simp add: ensure_schema_frame two_offsets_def required_group_def col_names_def getitem_def
      to_datetime_def to_numeric_def coerce_date_def coerce_num_def sample_dates_def zones_def
      zone_of_def)

text \<open>
  Claim C2, at a failing input. Under pandas 2 a file whose two dates are written with
  different UTC offsets comes out of \<open>ensure_schema\<close> with both timestamps, in a Date
  column of dtype object. Applied to that table, \<open>ensure_schema\<close> turns the second
  timestamp, whose zone is not the first one's, into NaT: the second application does not
  return what the first returned.
\<close>

theorem ensure_schema_twice_differs:
  "ensure_schema Pandas2 sample_dates sample_numbers (PyDataFrame two_offsets) =
     Inr (DataFrame 2
       [Column ''Date'' ObjectT [Time (TimestampTz 2024 1 5 60), Time (TimestampTz 2024 1 6 120)],
        Column ''Type'' ObjectT [Str ''Expense'', Str ''Expense''],
        Column ''Category'' ObjectT [Str ''Food'', Str ''Food''],
        Column ''Description'' ObjectT [Str ''lunch'', Str ''dinner''],
        Column ''Amount'' NumericT [Num 12, Num 30]])
   \<and> ensure_schema Pandas2 sample_dates sample_numbers
       (PyDataFrame (DataFrame 2
         [Column ''Date'' ObjectT [Time (TimestampTz 2024 1 5 60), Time (TimestampTz 2024 1 6 120)],
          Column ''Type'' ObjectT [Str ''Expense'', Str ''Expense''],
          Column ''Category'' ObjectT [Str ''Food'', Str ''Food''],
          Column ''Description'' ObjectT [Str ''lunch'', Str ''dinner''],
          Column ''Amount'' NumericT [Num 12, Num 30]])) =
     Inr (DataFrame 2
       [Column ''Date'' DatetimeT [Time (TimestampTz 2024 1 5 60), NA],
        Column ''Type'' ObjectT [Str ''Expense'', Str ''Expense''],
        Column ''Category'' ObjectT [Str ''Food'', Str ''Food''],
        Column ''Description'' ObjectT [Str ''lunch'', Str ''dinner''],
        Column ''Amount'' NumericT [Num 12, Num 30]])"
proof -
  have second: "ensure_schema Pandas2 sample_dates sample_numbers
       (PyDataFrame (DataFrame 2
         [Column ''Date'' ObjectT [Time (TimestampTz 2024 1 5 60), Time (TimestampTz 2024 1 6 120)],
          Column ''Type'' ObjectT [Str ''Expense'', Str ''Expense''],
          Column ''Category'' ObjectT [Str ''Food'', Str ''Food''],
          Column ''Description'' ObjectT [Str ''lunch'', Str ''dinner''],
          Column ''Amount'' NumericT [Num 12, Num 30]])) =
     Inr (DataFrame 2
       [Column ''Date'' DatetimeT [Time (TimestampTz 2024 1 5 60), NA],
        Column ''Type'' ObjectT [Str ''Expense'', Str ''Expense''],
        Column ''Category'' ObjectT [Str ''Food'', Str ''Food''],
        Column ''Description'' ObjectT [Str ''lunch'', Str ''dinner''],
        Column ''Amount'' NumericT [Num 12, Num 30]])"
    by (simp add: ensure_schema_frame required_group_def col_names_def getitem_def
        to_datetime_def to_numeric_def coerce_date_def coerce_num_def zones_def zone_of_def)
  from two_offsets_pandas2 second show ?thesis by (rule conjI)
qed

text \<open>
  Claim C3, at a failing input. Under pandas 3 the same file, which has the five required
  columns once each and two dates that both parse, makes \<open>ensure_schema\<close> raise ValueError.
\<close>

theorem ensure_schema_raises:
  "ensure_schema Pandas3 sample_dates sample_numbers (PyDataFrame two_offsets) = Inl ValueError"
  by (simp add: ensure_schema_frame two_offsets_def required_group_def col_names_def getitem_def
      to_datetime_def coerce_date_def sample_dates_def zones_def zone_of_def)

section \<open>Recurring transactions: facts\<close>

lemma ensure_store_zoned:
  "ensure_store ver P N [zoned_lunch] = Inr [zoned_lunch]"
  by (simp add: ensure_store_def ensure_schema_frame store_frame_def datetime_like_def
      zoned_lunch_def required_group_def col_names_def getitem_def to_datetime_def
      to_numeric_def coerce_date_def coerce_num_def zones_def zone_of_def frame_rows_def
      cell_at_def as_time_def as_num_def)

lemma ensure_store_zoned_rent:
  "ensure_store ver P N
     [zoned_lunch, new_row (Timestamp 2024 1 20) ''Expense'' ''Bills'' ''rent'' 50] =
   Inr [zoned_lunch,
        \<lparr>Date = None, Type = Str ''Expense'', Category = Str ''Bills'',
         Description = Str ''rent'', Amount = Some 50\<rparr>]"
  by (simp add: ensure_store_def ensure_schema_frame store_frame_def datetime_like_def
      zoned_lunch_def new_row_def required_group_def col_names_def getitem_def to_datetime_def
      to_numeric_def coerce_date_def coerce_num_def zones_def zone_of_def frame_rows_def
      cell_at_def as_time_def as_num_def upt_rec)

text \<open>
  Claim C1, at a failing input. The table holds one imported transaction whose date has a
  time zone, and there is one rule. The first run appends the rule's row, dated by the
  zone-less clock. At the start of the second run, in the same month, line 50 turns that date
  into NaT, so the row is no longer found in the month and the second run appends the rule's
  row again: after two runs the table holds two rows for the one rule.
\<close>

theorem recurring_run_twice_appends_twice:
  "recurring_run ver P N (Timestamp 2024 1 20) [(Timestamp 2024 1 20, rent_rule)] [zoned_lunch] =
     ([zoned_lunch, new_row (Timestamp 2024 1 20) ''Expense'' ''Bills'' ''rent'' 50], None)
   \<and> recurring_run ver P N (Timestamp 2024 1 20) [(Timestamp 2024 1 20, rent_rule)]
       [zoned_lunch, new_row (Timestamp 2024 1 20) ''Expense'' ''Bills'' ''rent'' 50] =
     ([zoned_lunch,
       \<lparr>Date = None, Type = Str ''Expense'', Category = Str ''Bills'',
        Description = Str ''rent'', Amount = Some 50\<rparr>,
       new_row (Timestamp 2024 1 20) ''Expense'' ''Bills'' ''rent'' 50], None)"
  unfolding recurring_run_def ensure_store_zoned ensure_store_zoned_rent
  by (simp add: apply_rule_def rec_exists_def datetime_like_def in_month_def zoned_lunch_def
      rent_rule_def zone_of_def strftime_BY_def)

section \<open>Budgets: facts\<close>









section \<open>Import, filters and editing: facts\<close>

lemma import_try_read:
  "import_try ver read_csv read_excel P N up st =
     (case read_upload read_csv read_excel up of
        Inl e \<Rightarrow> Inl e
      | Inr df_new \<Rightarrow>
          (case ensure_schema ver P N (PyDataFrame df_new) of
             Inl e \<Rightarrow> Inl e
           | Inr df \<Rightarrow> concat_rows st df))"
  by (simp add: import_try_def read_upload_def)

text \<open>
  Claim C4. The import block always returns a store and one notice. When the reader, the
  schema enforcement or the concatenation raises, the exception is caught, the notice is the
  failure with that exception, and the store is the one the block started with. Otherwise
  the store is the old store followed by the rows of the enforced table, all at once.
\<close>

theorem import_atomic:
  "(\<forall>e. import_try ver read_csv read_excel P N up st = Inl e \<longrightarrow>
        import_block ver read_csv read_excel P N (Some up) st = (st, [Failure e]))
   \<and> (\<forall>st'. import_try ver read_csv read_excel P N up st = Inr st' \<longrightarrow>
        import_block ver read_csv read_excel P N (Some up) st = (st', [Success ''Data Imported!''])
        \<and> (\<exists>d df. read_upload read_csv read_excel up = Inr d
               \<and> ensure_schema ver P N (PyDataFrame d) = Inr df \<and> st' = st @ frame_rows df))
   \<and> (\<forall>e. read_upload read_csv read_excel up = Inl e \<longrightarrow>
        import_try ver read_csv read_excel P N up st = Inl e)
   \<and> (\<forall>d e. read_upload read_csv read_excel up = Inr d \<and> ensure_schema ver P N (PyDataFrame d) = Inl e \<longrightarrow>
        import_try ver read_csv read_excel P N up st = Inl e)
   \<and> (\<exists>note. import_block ver read_csv read_excel P N (Some up) st = (st, [Failure note])
        \<or> (\<exists>rows. import_block ver read_csv read_excel P N (Some up) st =
              (st @ rows, [Success ''Data Imported!''])))"
proof -
  have a: "\<forall>e. import_try ver read_csv read_excel P N up st = Inl e \<longrightarrow>
        import_block ver read_csv read_excel P N (Some up) st = (st, [Failure e])"
    by (simp add: import_block_def)
  have b: "\<forall>st'. import_try ver read_csv read_excel P N up st = Inr st' \<longrightarrow>
        import_block ver read_csv read_excel P N (Some up) st = (st', [Success ''Data Imported!''])
        \<and> (\<exists>d df. read_upload read_csv read_excel up = Inr d
               \<and> ensure_schema ver P N (PyDataFrame d) = Inr df \<and> st' = st @ frame_rows df)"
    by (auto simp: import_block_def import_try_read concat_rows_def split: sum.splits if_splits)
  have c: "\<forall>e. read_upload read_csv read_excel up = Inl e \<longrightarrow>
        import_try ver read_csv read_excel P N up st = Inl e"
    by (simp add: import_try_read)
  have d: "\<forall>d e. read_upload read_csv read_excel up = Inr d \<and> ensure_schema ver P N (PyDataFrame d) = Inl e \<longrightarrow>
        import_try ver read_csv read_excel P N up st = Inl e"
    by (simp add: import_try_read)
  have e: "\<exists>note. import_block ver read_csv read_excel P N (Some up) st = (st, [Failure note])
        \<or> (\<exists>rows. import_block ver read_csv read_excel P N (Some up) st =
              (st @ rows, [Success ''Data Imported!'']))"
  proof (cases "import_try ver read_csv read_excel P N up st")
    case (Inl x)
    then show ?thesis using a by blast
  next
    case (Inr st')
    then show ?thesis using b by blast
  qed
  show ?thesis using a b c d e by blast
qed

theorem import_atomic_witness:
  "import_block Pandas3 sample_reader sample_reader sample_dates sample_numbers
      (Some \<lparr>up_name = ''empty.csv'', up_data = []\<rparr>) [note_row (Str ''tea'')] =
     ([note_row (Str ''tea'')], [Failure (ParserError ''No columns to parse from file'')])
   \<and> import_block Pandas3 sample_reader sample_reader sample_dates sample_numbers
      (Some \<lparr>up_name = ''jan.xlsx'', up_data = [80, 75]\<rparr>) [note_row (Str ''tea'')] =
     ([note_row (Str ''tea''),
       \<lparr>Date = Some (Timestamp 2024 1 5), Type = NA, Category = NA,
        Description = Str ''rent'', Amount = None\<rparr>], [Success ''Data Imported!''])"
proof -
  have f: "import_try Pandas3 sample_reader sample_reader sample_dates sample_numbers
      \<lparr>up_name = ''empty.csv'', up_data = []\<rparr> [note_row (Str ''tea'')] =
      Inl (ParserError ''No columns to parse from file'')"
    by (simp add: import_try_def sample_reader_def)
  have g: "import_try Pandas3 sample_reader sample_reader sample_dates sample_numbers
      \<lparr>up_name = ''jan.xlsx'', up_data = [80, 75]\<rparr> [note_row (Str ''tea'')] =
      Inr [note_row (Str ''tea''),
       \<lparr>Date = Some (Timestamp 2024 1 5), Type = NA, Category = NA,
        Description = Str ''rent'', Amount = None\<rparr>]"
    by (simp add: import_try_def sample_reader_def endswith_def ensure_schema_frame
        required_group_def col_names_def getitem_def to_datetime_def to_numeric_def
        null_column_def missing_dtype_def coerce_date_def coerce_num_def sample_dates_def zones_def zone_of_def
        concat_rows_def REQUIRED_COLS_def frame_rows_def cell_at_def as_time_def as_num_def)
  from import_atomic[of Pandas3 sample_reader sample_reader sample_dates sample_numbers
      "\<lparr>up_name = ''empty.csv'', up_data = []\<rparr>" "[note_row (Str ''tea'')]"] f
  have 1: "import_block Pandas3 sample_reader sample_reader sample_dates sample_numbers
      (Some \<lparr>up_name = ''empty.csv'', up_data = []\<rparr>) [note_row (Str ''tea'')] =
     ([note_row (Str ''tea'')], [Failure (ParserError ''No columns to parse from file'')])"
    by blast
  from import_atomic[of Pandas3 sample_reader sample_reader sample_dates sample_numbers
      "\<lparr>up_name = ''jan.xlsx'', up_data = [80, 75]\<rparr>" "[note_row (Str ''tea'')]"] g
  have 2: "import_block Pandas3 sample_reader sample_reader sample_dates sample_numbers
      (Some \<lparr>up_name = ''jan.xlsx'', up_data = [80, 75]\<rparr>) [note_row (Str ''tea'')] =
     ([note_row (Str ''tea''),
       \<lparr>Date = Some (Timestamp 2024 1 5), Type = NA, Category = NA,
        Description = Str ''rent'', Amount = None\<rparr>], [Success ''Data Imported!''])"
    by blast
  from 1 2 show ?thesis by (rule conjI)
qed





lemma text_filter_no_accessor:
  "search_text \<noteq> [] \<Longrightarrow> \<not> str_accessor desc_dtype (map Description st) \<Longrightarrow>
     text_filter eng desc_dtype search_text st = Inl AttributeError"
  by (simp add: text_filter_def)




text \<open>
  Claim C9, at a failing input. The table comes from a file of whole amounts, so under
  pandas 3 its Amount column is of dtype int64. The form edits the second row, inside the
  table, and gives 75.5 as the amount. The assignments of lines 257 and 258 are carried out;
  the one of line 259 raises TypeError. The type and the category of the row have changed,
  its amount, its description and its date have not.
\<close>

theorem update_at_stops_half_way:
  "edit_block int64_amounts 1 sample_edit (Timestamp 2024 2 1)
     [lunch (Timestamp 2024 1 5) 12, lunch (Timestamp 2024 1 6) 30] =
   ([lunch (Timestamp 2024 1 5) 12,
     \<lparr>Date = Some (Timestamp 2024 1 6), Type = Str ''Income'', Category = Str ''Other'',
      Description = Str ''lunch'', Amount = Some 30\<rparr>], Some TypeError)
   \<and> update_at int64_amounts 1 sample_edit (Timestamp 2024 2 1)
     [lunch (Timestamp 2024 1 5) 12, lunch (Timestamp 2024 1 6) 30] =
   ([lunch (Timestamp 2024 1 5) 12,
     \<lparr>Date = Some (Timestamp 2024 1 6), Type = Str ''Income'', Category = Str ''Other'',
      Description = Str ''lunch'', Amount = Some 30\<rparr>], Some TypeError)"
proof -
  have less: "\<not> (of_int \<lfloor>75.5 :: real\<rfloor> = (75.5 :: real))"
  proof
    assume "of_int \<lfloor>75.5 :: real\<rfloor> = (75.5 :: real)"
    then have "(75.5 :: real) \<in> \<int>"
      by (metis Ints_of_int)
    then have "(151 / 2 :: real) \<in> \<int>" by simp
    then obtain k :: int where "(151 / 2 :: real) = of_int k"
      by (auto elim: Ints_cases)
    then have "(151 :: real) = of_int (2 * k)" by simp
    then have "(151 :: int) = 2 * k" by (metis of_int_eq_iff of_int_numeral)
    then show False by presburger
  qed
  have u: "update_at int64_amounts 1 sample_edit (Timestamp 2024 2 1)
     [lunch (Timestamp 2024 1 5) 12, lunch (Timestamp 2024 1 6) 30] =
   ([lunch (Timestamp 2024 1 5) 12,
     \<lparr>Date = Some (Timestamp 2024 1 6), Type = Str ''Income'', Category = Str ''Other'',
      Description = Str ''lunch'', Amount = Some 30\<rparr>], Some TypeError)"
    using less
    by (simp add: update_at_def at_set_def int64_amounts_def sample_edit_def lunch_def)
  have "edit_block int64_amounts 1 sample_edit (Timestamp 2024 2 1)
     [lunch (Timestamp 2024 1 5) 12, lunch (Timestamp 2024 1 6) 30] =
     update_at int64_amounts 1 sample_edit (Timestamp 2024 2 1)
     [lunch (Timestamp 2024 1 5) 12, lunch (Timestamp 2024 1 6) 30]"
    by (simp add: edit_block_def lunch_def CATEGORY_OPTIONS_def sample_edit_def)
  with u show ?thesis by simp
qed

section \<open>Balance over time: facts\<close>

lemma stable_argsort_ok: "argsort_ok stable_argsort"
  by (simp add: argsort_ok_def stable_argsort_def)

lemma argsort_set: "argsort_ok a \<Longrightarrow> set (a ks) = {0..<length ks}"
proof -
  assume "argsort_ok a"
  then have "mset (a ks) = mset [0..<length ks]" by (simp add: argsort_ok_def)
  then have "set (a ks) = set [0..<length ks]" by (rule mset_eq_setD)
  then show ?thesis by simp
qed

lemma argsort_perm:
  assumes "argsort_ok a" and "length ks = length xs"
  shows "mset (map (\<lambda>i. xs ! i) (a ks)) = mset xs"
proof -
  have "mset (a ks) = mset [0..<length xs]"
    using assms by (simp add: argsort_ok_def)
  then have "mset (map (\<lambda>i. xs ! i) (a ks)) = mset (map (\<lambda>i. xs ! i) [0..<length xs])"
    by (metis mset_map)
  then show ?thesis by (simp add: map_nth)
qed

lemma argsort_sorted:
  assumes "argsort_ok a"
  shows "sorted (map f (map (\<lambda>i. xs ! i) (a (map f xs))))"
proof -
  have in_range: "\<And>i. i \<in> set (a (map f xs)) \<Longrightarrow> i < length xs"
    using argsort_set[OF assms, of "map f xs"] by simp
  have "map (\<lambda>i. f (xs ! i)) (a (map f xs)) = map (\<lambda>i. map f xs ! i) (a (map f xs))"
    by (rule map_cong) (simp_all add: in_range)
  moreover have "sorted (map (\<lambda>i. map f xs ! i) (a (map f xs)))"
    using assms by (simp add: argsort_ok_def)
  ultimately have "sorted (map (\<lambda>i. f (xs ! i)) (a (map f xs)))"
    by (simp only:)
  then show ?thesis by (simp only: map_map comp_def)
qed

lemma sort_values_parts:
  assumes "argsort_ok a"
  shows "\<exists>dated. sort_values_Date a st = dated @ filter (\<lambda>r. Date r = None) st
     \<and> mset dated = mset (filter (\<lambda>r. Date r \<noteq> None) st)
     \<and> sorted (map (\<lambda>r. ts_key (the (Date r))) dated)"
proof -
  let ?D = "filter (\<lambda>r. Date r \<noteq> None) st"
  let ?k = "\<lambda>r. ts_key (the (Date r))"
  let ?dated = "map (\<lambda>i. ?D ! i) (a (map ?k ?D))"
  have "sort_values_Date a st = ?dated @ filter (\<lambda>r. Date r = None) st"
    by (simp add: sort_values_Date_def Let_def)
  moreover have "mset ?dated = mset ?D"
    by (rule argsort_perm[OF assms]) simp
  moreover have "sorted (map ?k ?dated)"
    by (rule argsort_sorted[OF assms])
  ultimately show ?thesis by blast
qed

lemma mset_sort_values:
  assumes "argsort_ok a"
  shows "mset (sort_values_Date a st) = mset st"
proof -
  from sort_values_parts[OF assms, of st] obtain dated where
    s: "sort_values_Date a st = dated @ filter (\<lambda>r. Date r = None) st"
    and m: "mset dated = mset (filter (\<lambda>r. Date r \<noteq> None) st)"
    by blast
  have "mset (filter (\<lambda>r. Date r \<noteq> None) st) + mset (filter (\<lambda>r. Date r = None) st) = mset st"
    by (induction st) simp_all
  then show ?thesis using s m by simp
qed

lemma length_cumsum: "length (cumsum acc ds) = length ds"
  by (induction acc ds rule: cumsum.induct) simp_all

lemma cumsum_nth:
  "k < length ds \<Longrightarrow>
   cumsum acc ds ! k =
     (case ds ! k of
        None \<Rightarrow> None
      | Some d \<Rightarrow> Some (acc + sum_list (map (\<lambda>x. case x of None \<Rightarrow> 0 | Some v \<Rightarrow> v) (take (Suc k) ds))))"
proof (induction acc ds arbitrary: k rule: cumsum.induct)
  case (1 acc)
  then show ?case by simp
next
  case (2 acc xs)
  then show ?case by (cases k) (simp_all split: option.splits)
next
  case (3 acc d xs)
  then show ?case by (cases k) (simp_all add: add.assoc split: option.splits)
qed

lemma cumsum_delta_nth:
  assumes "k < length rows"
  shows "cumsum 0 (map delta rows) ! k =
     (case delta (rows ! k) of None \<Rightarrow> None | Some d \<Rightarrow> Some (net_of (take (Suc k) rows)))"
proof -
  have "sum_list (map (\<lambda>x. case x of None \<Rightarrow> 0 | Some v \<Rightarrow> v) (take (Suc k) (map delta rows))) =
      net_of (take (Suc k) rows)"
    by (simp only: net_of_def take_map map_map comp_def)
  moreover have "k < length (map delta rows)" using assms by simp
  moreover have "map delta rows ! k = delta (rows ! k)" using assms by simp
  ultimately show ?thesis
    by (simp add: cumsum_nth split: option.splits)
qed



lemma length_sort_values: "argsort_ok a \<Longrightarrow> length (sort_values_Date a st) = length st"
  using mset_sort_values[of a st] by (metis size_mset)

lemma balance_chart_rows:
  assumes "argsort_ok a"
  shows "balance_chart a st =
     (if st = [] then None
      else Some (zip (sort_values_Date a st) (cumsum 0 (map delta (sort_values_Date a st)))))"
proof -
  have "sort_values_Date a st = [] \<longleftrightarrow> st = []"
    using length_sort_values[OF assms, of st] by (metis length_0_conv)
  then show ?thesis by (simp add: balance_chart_def Let_def)
qed





text \<open>
  Claim C8, as amended. The cumulative balance series puts the transactions that have a date
  first, in ascending order of date, and the transactions without a date after them, in the
  order of their insertion; it is a rearrangement of the store. The order among transactions
  of equal date is the one the library's default sort leaves, which the program does not
  fix. The delta of a transaction is its amount for Income and minus its amount otherwise;
  the balance at a position is null when the amount there is null, and otherwise the sum of
  the deltas up to and including the position, null amounts skipped.
\<close>

theorem balance_series_order:
  assumes "argsort_ok argsort"
  shows "(\<exists>dated. sort_values_Date argsort st = dated @ filter (\<lambda>r. Date r = None) st
            \<and> mset dated = mset (filter (\<lambda>r. Date r \<noteq> None) st)
            \<and> sorted (map (\<lambda>r. ts_key (the (Date r))) dated))
     \<and> mset (sort_values_Date argsort st) = mset st
     \<and> balance_chart argsort st =
         (if st = [] then None
          else Some (zip (sort_values_Date argsort st)
                         (cumsum 0 (map delta (sort_values_Date argsort st)))))
     \<and> (\<forall>k. k < length st \<longrightarrow>
           cumsum 0 (map delta (sort_values_Date argsort st)) ! k =
             (case delta (sort_values_Date argsort st ! k) of
                None \<Rightarrow> None
              | Some d \<Rightarrow> Some (net_of (take (Suc k) (sort_values_Date argsort st)))))
     \<and> (\<forall>r. delta r = (if Type r = Str ''Income'' then Amount r else map_option uminus (Amount r)))"
proof -
  have "\<forall>k. k < length st \<longrightarrow>
           cumsum 0 (map delta (sort_values_Date argsort st)) ! k =
             (case delta (sort_values_Date argsort st ! k) of
                None \<Rightarrow> None
              | Some d \<Rightarrow> Some (net_of (take (Suc k) (sort_values_Date argsort st))))"
    using cumsum_delta_nth[of _ "sort_values_Date argsort st"] length_sort_values[OF assms, of st]
    by simp
  moreover have "\<forall>r. delta r = (if Type r = Str ''Income'' then Amount r else map_option uminus (Amount r))"
    by (simp add: delta_def)
  ultimately show ?thesis
    using sort_values_parts[OF assms, of st] mset_sort_values[OF assms, of st]
      balance_chart_rows[OF assms, of st]
    by blast
qed

theorem balance_series_order_witness:
  "balance_chart stable_argsort
      [entry (Some (Timestamp 2024 1 2)) ''Expense'' (Some 30),
       entry None ''Income'' (Some 5),
       entry (Some (Timestamp 2024 1 1)) ''Income'' (Some 100)] =
     Some [(entry (Some (Timestamp 2024 1 1)) ''Income'' (Some 100), Some 100),
           (entry (Some (Timestamp 2024 1 2)) ''Expense'' (Some 30), Some 70),
           (entry None ''Income'' (Some 5), Some 75)]"
proof -
  let ?st = "[entry (Some (Timestamp 2024 1 2)) ''Expense'' (Some 30),
       entry None ''Income'' (Some 5),
       entry (Some (Timestamp 2024 1 1)) ''Income'' (Some 100)]"
  have sorted: "sort_values_Date stable_argsort ?st =
      [entry (Some (Timestamp 2024 1 1)) ''Income'' (Some 100),
       entry (Some (Timestamp 2024 1 2)) ''Expense'' (Some 30),
       entry None ''Income'' (Some 5)]"
    by (simp add: sort_values_Date_def stable_argsort_def entry_def ts_key_def)
  have "balance_chart stable_argsort ?st =
      Some (zip (sort_values_Date stable_argsort ?st)
                (cumsum 0 (map delta (sort_values_Date stable_argsort ?st))))"
    using balance_series_order[OF stable_argsort_ok, of ?st] by simp
  then show ?thesis
    unfolding sorted by (simp add: delta_def entry_def)
qed

lemma numpy_sort_tied:
  "numpy_sort (replicate 18 (2024, 1, 5)) =
     [0, 15, 14, 13, 12, 11, 10, 9, 8, 7, 6, 5, 4, 3, 2, 1, 16, 17]"
  by code_simp

lemma tied_rows_dates:
  "map Date tied_rows = replicate 18 (Some (Timestamp 2024 1 5))"
  by (simp add: tied_rows_def entry_def comp_def map_replicate_const)

lemma tied_rows_keys:
  "map (\<lambda>r. ts_key (the (Date r))) tied_rows = replicate 18 (2024, 1, 5)"
  by (simp add: tied_rows_def entry_def comp_def map_replicate_const ts_key_def)

lemma tied_rows_sorted:
  "sort_values_Date numpy_sort tied_rows =
     map (\<lambda>i. tied_rows ! i) [0, 15, 14, 13, 12, 11, 10, 9, 8, 7, 6, 5, 4, 3, 2, 1, 16, 17]"
proof -
  have "\<forall>r\<in>set tied_rows. Date r = Some (Timestamp 2024 1 5)"
    by (auto simp: tied_rows_def entry_def)
  then have all: "filter (\<lambda>r. Date r \<noteq> None) tied_rows = tied_rows"
    "filter (\<lambda>r. Date r = None) tied_rows = []"
    by (simp_all add: filter_id_conv filter_empty_conv)
  have "sort_values_Date numpy_sort tied_rows =
      map (\<lambda>i. tied_rows ! i) (numpy_sort (map (\<lambda>r. ts_key (the (Date r))) tied_rows)) @ []"
    unfolding sort_values_Date_def Let_def all ..
  then show ?thesis
    by (simp only: tied_rows_keys numpy_sort_tied append_Nil2)
qed

text \<open>
  Against claim C8 as it stands. The program sorts with pandas' default algorithm, numpy's
  quicksort, which exchanges equal keys when it partitions. Eighteen expenses of one date,
  whose amounts 0 to 17 number them in the order of their insertion, leave the sort in the
  order 0, 15, 14, 13, 12, 11, 10, 9, 8, 7, 6, 5, 4, 3, 2, 1, 16, 17, and the chart follows
  that order.
\<close>

theorem balance_series_ties:
  "map Date tied_rows = replicate 18 (Some (Timestamp 2024 1 5))
   \<and> map Amount tied_rows =
       [Some 0, Some 1, Some 2, Some 3, Some 4, Some 5, Some 6, Some 7, Some 8, Some 9,
        Some 10, Some 11, Some 12, Some 13, Some 14, Some 15, Some 16, Some 17]
   \<and> map Amount (sort_values_Date numpy_sort tied_rows) =
       [Some 0, Some 15, Some 14, Some 13, Some 12, Some 11, Some 10, Some 9, Some 8, Some 7,
        Some 6, Some 5, Some 4, Some 3, Some 2, Some 1, Some 16, Some 17]
   \<and> sort_values_Date numpy_sort tied_rows \<noteq> tied_rows
   \<and> (\<exists>rows. balance_chart numpy_sort tied_rows = Some rows
         \<and> map fst rows = sort_values_Date numpy_sort tied_rows)"
proof -
  have am: "map Amount tied_rows =
       [Some 0, Some 1, Some 2, Some 3, Some 4, Some 5, Some 6, Some 7, Some 8, Some 9,
        Some 10, Some 11, Some 12, Some 13, Some 14, Some 15, Some 16, Some 17]"
    by (simp add: tied_rows_def entry_def upt_rec)
  have len: "length tied_rows = 18"
    by (simp add: tied_rows_def)
  have nth: "Amount (tied_rows ! i) = map Amount tied_rows ! i" if "i < 18" for i
    using that len by simp
  have so: "map Amount (sort_values_Date numpy_sort tied_rows) =
       [Some 0, Some 15, Some 14, Some 13, Some 12, Some 11, Some 10, Some 9, Some 8, Some 7,
        Some 6, Some 5, Some 4, Some 3, Some 2, Some 1, Some 16, Some 17]"
    unfolding tied_rows_sorted by (simp add: nth) (simp add: am)
  have ne: "sort_values_Date numpy_sort tied_rows \<noteq> tied_rows"
  proof
    assume "sort_values_Date numpy_sort tied_rows = tied_rows"
    then have "map Amount (sort_values_Date numpy_sort tied_rows) = map Amount tied_rows"
      by simp
    then show False
      unfolding so am by simp
  qed
  have ls: "length (sort_values_Date numpy_sort tied_rows) = 18"
    unfolding tied_rows_sorted by simp
  then have "sort_values_Date numpy_sort tied_rows \<noteq> []"
    by auto
  then have "balance_chart numpy_sort tied_rows =
      Some (zip (sort_values_Date numpy_sort tied_rows)
                (cumsum 0 (map delta (sort_values_Date numpy_sort tied_rows))))"
    by (simp add: balance_chart_def Let_def)
  moreover have "map fst (zip (sort_values_Date numpy_sort tied_rows)
                (cumsum 0 (map delta (sort_values_Date numpy_sort tied_rows)))) =
      sort_values_Date numpy_sort tied_rows"
    by (simp add: length_cumsum)
  ultimately have ch: "\<exists>rows. balance_chart numpy_sort tied_rows = Some rows
         \<and> map fst rows = sort_values_Date numpy_sort tied_rows"
    by blast
  from tied_rows_dates am so ne ch show ?thesis by blast
qed


end
